theory Spec2Isabelle
  imports Main "HOL-Library.Word"
begin

unbundle bit_operations_syntax

section \<open>The MIDI message views of chrds.hpp\<close>

text \<open>
  The header declares two class templates over an element type \<open>T\<close> of size one:
  \<open>MessageView<T>\<close>, a window of three elements, and \<open>MessagesView<T>\<close>, a span whose
  length is a multiple of three, with a private random-access iterator. The concept
  \<open>ByteSized\<close> admits every type of size one that converts to \<open>std::uint8_t\<close> and to
  \<open>std::uint16_t\<close>: the unsigned ones (\<open>std::uint8_t\<close>, \<open>unsigned char\<close>, \<open>std::byte\<close>)
  and the signed ones (\<open>std::int8_t\<close>, \<open>signed char\<close>, \<open>char\<close> where it is signed). An
  element is modelled by its eight bits. \<open>static_cast<std::uint8_t>\<close> keeps those bits
  for every element type; \<open>static_cast<std::uint16_t>\<close> extends them with zeros for an
  unsigned type and with the sign bit for a signed one, so the one function that uses
  it, \<open>pitch_wheel\<close>, takes the signedness of \<open>T\<close> as a parameter.

  Memory is the caller's buffer, a list of bytes; a pointer or span iterator is the
  offset of an element from the start of that buffer. Every member function that reads
  memory or can throw is a computation: it takes the buffer and returns its outcome
  together with the buffer it leaves behind.
\<close>

subsection \<open>Outcomes\<close>

type_synonym byte = "8 word"

type_synonym buffer = "byte list"

datatype MessageKind =
    NoteOff
  | NoteOn
  | PolyAftertouch
  | ControlChange
  | ProgramChange
  | ChannelAftertouch
  | PitchWheel
  | SystemExclusive

text \<open>The two exception types, both derived from \<open>std::runtime_error\<close>.\<close>

datatype exn = InvalidMidiData | InvalidMidiDataLength

text \<open>
  A call ends by returning, by throwing, by a failed \<open>assert\<close> (the program aborts), or
  by reading outside the buffer (undefined behaviour in C++, a fault of its own here).
\<close>

datatype fault = Thrown exn | AssertionFailed | OutOfBounds

type_synonym 'a comp = "buffer \<Rightarrow> (fault + 'a) \<times> buffer"

definition ret :: "'a \<Rightarrow> 'a comp" where
  "ret x m = (Inr x, m)"

definition fail :: "fault \<Rightarrow> 'a comp" where
  "fail f m = (Inl f, m)"

definition throw :: "exn \<Rightarrow> 'a comp" where
  "throw e = fail (Thrown e)"

definition andthen :: "'a comp \<Rightarrow> ('a \<Rightarrow> 'b comp) \<Rightarrow> 'b comp" where
  "andthen c f m = (case c m of (Inl e, m') \<Rightarrow> (Inl e, m') | (Inr x, m') \<Rightarrow> f x m')"

text \<open>Reading the element at offset \<open>a\<close>.\<close>

definition load :: "int \<Rightarrow> byte comp" where
  "load a m = (if 0 \<le> a \<and> a < int (length m) then (Inr (m ! nat a), m) else (Inl OutOfBounds, m))"

text \<open>
  \<open>CHRDS_ASSERT(expression)\<close> is \<open>assert(expression)\<close>: with \<open>NDEBUG\<close> defined it expands to
  nothing and the expression is not evaluated; otherwise the expression is evaluated
  (it may throw) and the program aborts when it is false.
\<close>

definition CHRDS_ASSERT :: "bool \<Rightarrow> bool comp \<Rightarrow> unit comp" where
  "CHRDS_ASSERT ndebug expression =
     (if ndebug then ret ()
      else andthen expression (\<lambda>b. if b then ret () else fail AssertionFailed))"

subsection \<open>MessageView\<close>

text \<open>
  The only member is \<open>std::span<T, 3> _data\<close>: a pointer to the first of three
  elements. The constructor stores the span and checks nothing.
\<close>

record MessageView =
  view_data :: int

definition status :: "MessageView \<Rightarrow> byte comp" where
  "status v = load (view_data v + 0)"

definition data_0 :: "MessageView \<Rightarrow> byte comp" where
  "data_0 v = load (view_data v + 1)"

definition data_1 :: "MessageView \<Rightarrow> byte comp" where
  "data_1 v = load (view_data v + 2)"

definition kind :: "MessageView \<Rightarrow> MessageKind comp" where
  "kind v = andthen (status v) (\<lambda>s.
     let n = s AND 0xf0 in
     if n = 0x80 then ret NoteOff
     else if n = 0x90 then ret NoteOn
     else if n = 0xA0 then ret PolyAftertouch
     else if n = 0xB0 then ret ControlChange
     else if n = 0xC0 then ret ProgramChange
     else if n = 0xD0 then ret ChannelAftertouch
     else if n = 0xE0 then ret PitchWheel
     else if n = 0xF0 then ret SystemExclusive
     else throw InvalidMidiData)"

definition channel :: "bool \<Rightarrow> MessageView \<Rightarrow> byte comp" where
  "channel ndebug v =
     andthen (CHRDS_ASSERT ndebug (andthen (kind v) (\<lambda>k. ret (k \<noteq> SystemExclusive))))
       (\<lambda>_. andthen (status v) (\<lambda>s. ret (s AND 0x0f)))"

text \<open>The member function \<open>note\<close>; the name is a keyword of the proof language.\<close>

definition note_val :: "bool \<Rightarrow> MessageView \<Rightarrow> byte comp" where
  "note_val ndebug v =
     (let expected_kinds = [NoteOff, NoteOn, PolyAftertouch] in
      andthen (CHRDS_ASSERT ndebug (andthen (kind v) (\<lambda>k. ret (k \<in> set expected_kinds))))
        (\<lambda>_. data_0 v))"

definition velocity :: "bool \<Rightarrow> MessageView \<Rightarrow> byte comp" where
  "velocity ndebug v =
     (let expected_kinds = [NoteOff, NoteOn] in
      andthen (CHRDS_ASSERT ndebug (andthen (kind v) (\<lambda>k. ret (k \<in> set expected_kinds))))
        (\<lambda>_. data_1 v))"

definition pressure :: "bool \<Rightarrow> MessageView \<Rightarrow> byte comp" where
  "pressure ndebug v = andthen (kind v) (\<lambda>k.
     case k of
       PolyAftertouch \<Rightarrow> data_0 v
     | ChannelAftertouch \<Rightarrow> data_1 v
     | _ \<Rightarrow> andthen (CHRDS_ASSERT ndebug (ret False)) (\<lambda>_. ret 0))"

definition cc_controller :: "bool \<Rightarrow> MessageView \<Rightarrow> byte comp" where
  "cc_controller ndebug v =
     andthen (CHRDS_ASSERT ndebug (andthen (kind v) (\<lambda>k. ret (k = ControlChange))))
       (\<lambda>_. data_0 v)"

definition cc_value :: "bool \<Rightarrow> MessageView \<Rightarrow> byte comp" where
  "cc_value ndebug v =
     andthen (CHRDS_ASSERT ndebug (andthen (kind v) (\<lambda>k. ret (k = ControlChange))))
       (\<lambda>_. data_1 v)"

definition program_number :: "bool \<Rightarrow> MessageView \<Rightarrow> byte comp" where
  "program_number ndebug v =
     andthen (CHRDS_ASSERT ndebug (andthen (kind v) (\<lambda>k. ret (k = ProgramChange))))
       (\<lambda>_. data_0 v)"

text \<open>
  The signedness of the element type \<open>T\<close>, and \<open>static_cast<std::uint16_t>\<close> of an
  element: the value of the element modulo \<open>2^16\<close>, which is zero extension for an
  unsigned type and sign extension for a signed one.
\<close>

datatype elem_type = UnsignedElem | SignedElem

definition to_uint16 :: "elem_type \<Rightarrow> byte \<Rightarrow> 16 word" where
  "to_uint16 T x = (case T of UnsignedElem \<Rightarrow> ucast x | SignedElem \<Rightarrow> scast x)"

text \<open>
  \<open>pitch_wheel\<close> converts both data bytes to \<open>std::uint16_t\<close>; the shift and the sum
  are computed in \<open>int\<close> after integral promotion (at most \<open>0xFFFF00 + 0xFFFF\<close>, no
  overflow), and the conversion to \<open>std::int16_t\<close> keeps the low 16 bits. The result is
  a 16-bit word whose value as an \<open>int16_t\<close> is read by \<open>sint\<close>.
\<close>

definition pitch_wheel :: "elem_type \<Rightarrow> MessageView \<Rightarrow> 16 word comp" where
  "pitch_wheel T v = andthen (data_1 v) (\<lambda>d1. andthen (data_0 v) (\<lambda>d0.
     ret (word_of_int (push_bit 8 (uint (to_uint16 T d1)) + uint (to_uint16 T d0)))))"

text \<open>
  The three bytes a view refers to, when all three lie inside the buffer.
\<close>

definition window_at :: "buffer \<Rightarrow> MessageView \<Rightarrow> (byte \<times> byte \<times> byte) option" where
  "window_at m v =
     (if 0 \<le> view_data v \<and> view_data v + 3 \<le> int (length m)
      then Some (m ! nat (view_data v), m ! nat (view_data v + 1), m ! nat (view_data v + 2))
      else None)"

subsection \<open>MessagesView and its iterator\<close>

text \<open>
  A \<open>std::span<T>\<close> is a pointer and a size; its \<open>begin()\<close> and \<open>end()\<close> are the
  positions of its first element and one past its last. A span over the whole buffer
  starts at offset 0.
\<close>

record span =
  span_ptr :: int
  span_size :: nat

definition span_begin :: "span \<Rightarrow> int" where
  "span_begin sp = span_ptr sp"

definition span_end :: "span \<Rightarrow> int" where
  "span_end sp = span_ptr sp + int (span_size sp)"

definition span_of :: "buffer \<Rightarrow> span" where
  "span_of m = \<lparr>span_ptr = 0, span_size = length m\<rparr>"

record MessagesView =
  seq_data :: span

text \<open>The constructor \<open>MessagesView(std::span<T> data)\<close>.\<close>

definition MessagesView_ctor :: "span \<Rightarrow> MessagesView comp" where
  "MessagesView_ctor data =
     (if span_size data mod 3 \<noteq> 0 then throw InvalidMidiDataLength
      else ret \<lparr>seq_data = data\<rparr>)"

text \<open>
  \<open>MessageIterator\<close> holds one span iterator, \<open>_span_it\<close>. Its \<open>difference_type\<close> is
  \<open>std::ptrdiff_t\<close>, taken here as an unbounded integer: pointer arithmetic that leaves
  the buffer is undefined in C++ before any integer could overflow. Division of
  integers truncates towards zero in C++.
\<close>

record MessageIterator =
  span_it :: int

definition cdiv :: "int \<Rightarrow> int \<Rightarrow> int" where
  "cdiv a b = sgn a * sgn b * (\<bar>a\<bar> div \<bar>b\<bar>)"

text \<open>
  The operators that modify \<open>*this\<close> return the iterator as it is after the call; the
  postfix forms return the copy made before the step, paired with the stepped iterator.
\<close>

definition op_pre_inc :: "MessageIterator \<Rightarrow> MessageIterator" where
  "op_pre_inc it = it\<lparr>span_it := span_it it + 3\<rparr>"

definition op_post_inc :: "MessageIterator \<Rightarrow> MessageIterator \<times> MessageIterator" where
  "op_post_inc it = (let copy = it in (copy, op_pre_inc it))"

definition op_pre_dec :: "MessageIterator \<Rightarrow> MessageIterator" where
  "op_pre_dec it = it\<lparr>span_it := span_it it - 3\<rparr>"

definition op_post_dec :: "MessageIterator \<Rightarrow> MessageIterator \<times> MessageIterator" where
  "op_post_dec it = (let copy = it in (copy, op_pre_dec it))"

definition op_distance :: "MessageIterator \<Rightarrow> MessageIterator \<Rightarrow> int" where
  "op_distance it other = cdiv (span_it it - span_it other) 3"

definition op_minus :: "MessageIterator \<Rightarrow> int \<Rightarrow> MessageIterator" where
  "op_minus it delta = \<lparr>span_it = span_it it - 3 * delta\<rparr>"

definition op_minus_friend :: "int \<Rightarrow> MessageIterator \<Rightarrow> MessageIterator" where
  "op_minus_friend delta iter = op_minus iter delta"

definition op_minus_assign :: "MessageIterator \<Rightarrow> int \<Rightarrow> MessageIterator" where
  "op_minus_assign it delta = it\<lparr>span_it := span_it it - delta * 3\<rparr>"

definition op_plus :: "MessageIterator \<Rightarrow> int \<Rightarrow> MessageIterator" where
  "op_plus it delta = \<lparr>span_it = span_it it + 3 * delta\<rparr>"

definition op_plus_friend :: "int \<Rightarrow> MessageIterator \<Rightarrow> MessageIterator" where
  "op_plus_friend delta iter = op_plus iter delta"

definition op_plus_assign :: "MessageIterator \<Rightarrow> int \<Rightarrow> MessageIterator" where
  "op_plus_assign it delta = it\<lparr>span_it := span_it it + delta * 3\<rparr>"

definition op_deref :: "MessageIterator \<Rightarrow> MessageView" where
  "op_deref it = \<lparr>view_data = span_it it\<rparr>"

definition op_index :: "MessageIterator \<Rightarrow> int \<Rightarrow> MessageView" where
  "op_index it delta = op_deref (op_plus it delta)"

text \<open>
  The class has no \<open>begin()\<close> or \<open>end()\<close>; a position is built from a span iterator
  by aggregate initialisation, \<open>MessageIterator{it}\<close>. These are the positions at the two
  ends of a view's span.
\<close>

definition first_position :: "MessagesView \<Rightarrow> MessageIterator" where
  "first_position sv = \<lparr>span_it = span_begin (seq_data sv)\<rparr>"

definition last_position :: "MessagesView \<Rightarrow> MessageIterator" where
  "last_position sv = \<lparr>span_it = span_end (seq_data sv)\<rparr>"

section \<open>Reading the window\<close>

lemma status_window:
  "window_at m v = Some (s, d0, d1) \<Longrightarrow> status v m = (Inr s, m)"
  by (simp add: window_at_def status_def load_def split: if_splits)

lemma data_0_window:
  "window_at m v = Some (s, d0, d1) \<Longrightarrow> data_0 v m = (Inr d0, m)"
  by (simp add: window_at_def data_0_def load_def split: if_splits)

lemma data_1_window:
  "window_at m v = Some (s, d0, d1) \<Longrightarrow> data_1 v m = (Inr d1, m)"
  by (simp add: window_at_def data_1_def load_def split: if_splits)

section \<open>The status byte\<close>

lemma f0_push_mask: "(0xf0 :: byte) = push_bit 4 (mask 4)"
  by (simp add: mask_eq_exp_minus_1)

lemma and_f0: "(s :: byte) AND 0xf0 = push_bit 4 (drop_bit 4 s)"
  unfolding f0_push_mask by (rule bit_word_eqI) (auto simp: bit_simps)

lemma drop_and_f0: "drop_bit 4 ((s :: byte) AND 0xf0) = drop_bit 4 s"
  unfolding f0_push_mask by (rule bit_word_eqI) (auto simp: bit_simps dest: bit_imp_le_length)

lemma unat_top_nibble: "unat (drop_bit 4 (s :: byte)) = unat s div 16"
  by (simp add: drop_bit_eq_div unat_div)

lemma top_bit_nibble: "bit (s :: byte) 7 = (8 \<le> drop_bit 4 s)"
proof -
  have lt: "unat s < 256" using unsigned_less [of s] by simp
  have "bit (unat s) 7 = bit s 7" by (simp add: bit_unsigned_iff)
  then have "bit s 7 = odd (unat s div 128)" using bit_iff_odd [of "unat s" 7] by simp
  also have "\<dots> = (unat s div 128 = 1)" using lt by (cases "unat s div 128 = 0") auto
  also have "\<dots> = (128 \<le> unat s)" using lt by auto
  also have "\<dots> = (8 \<le> unat s div 16)" by auto
  also have "\<dots> = (8 \<le> drop_bit 4 s)" by (simp add: word_le_nat_alt unat_top_nibble)
  finally show ?thesis .
qed

lemma top_nibble_switch:
  fixes s :: byte
  shows "(s AND 0xf0 = 0x80) = (drop_bit 4 s = 0x8)"
    and "(s AND 0xf0 = 0x90) = (drop_bit 4 s = 0x9)"
    and "(s AND 0xf0 = 0xA0) = (drop_bit 4 s = 0xA)"
    and "(s AND 0xf0 = 0xB0) = (drop_bit 4 s = 0xB)"
    and "(s AND 0xf0 = 0xC0) = (drop_bit 4 s = 0xC)"
    and "(s AND 0xf0 = 0xD0) = (drop_bit 4 s = 0xD)"
    and "(s AND 0xf0 = 0xE0) = (drop_bit 4 s = 0xE)"
    and "(s AND 0xf0 = 0xF0) = (drop_bit 4 s = 0xF)"
  using drop_and_f0 [of s] and_f0 [of s] by auto

lemma top_nibble_range:
  fixes s :: byte
  assumes "8 \<le> drop_bit 4 s"
  shows "drop_bit 4 s \<in> {0x8, 0x9, 0xA, 0xB, 0xC, 0xD, 0xE, 0xF}"
proof -
  have lt: "unat s < 256" using unsigned_less [of s] by simp
  have "8 \<le> unat (drop_bit 4 s)" using assms by (simp add: word_le_nat_alt)
  moreover have "unat (drop_bit 4 s) < 16" using lt by (simp add: unat_top_nibble)
  ultimately have "unat (drop_bit 4 s) \<in> {8, 9, 10, 11, 12, 13, 14, 15}" by auto
  then show ?thesis by (auto simp: word_unat_eq_iff)
qed

lemma kind_window:
  assumes "window_at m v = Some (s, d0, d1)"
  shows "kind v m =
     (if drop_bit 4 s = 0x8 then (Inr NoteOff, m)
      else if drop_bit 4 s = 0x9 then (Inr NoteOn, m)
      else if drop_bit 4 s = 0xA then (Inr PolyAftertouch, m)
      else if drop_bit 4 s = 0xB then (Inr ControlChange, m)
      else if drop_bit 4 s = 0xC then (Inr ProgramChange, m)
      else if drop_bit 4 s = 0xD then (Inr ChannelAftertouch, m)
      else if drop_bit 4 s = 0xE then (Inr PitchWheel, m)
      else if drop_bit 4 s = 0xF then (Inr SystemExclusive, m)
      else (Inl (Thrown InvalidMidiData), m))"
  by (simp add: kind_def andthen_def status_window [OF assms] Let_def top_nibble_switch
      ret_def throw_def fail_def)

section \<open>Classification\<close>

text \<open>
  C1. For every window of three bytes inside the buffer, with status byte \<open>s\<close>: when
  bit 7 of \<open>s\<close> is set, \<open>kind()\<close> returns the kind that the table pairs with the top
  nibble of \<open>s\<close> (0x8 NoteOff, 0x9 NoteOn, 0xA PolyAftertouch, 0xB ControlChange,
  0xC ProgramChange, 0xD ChannelAftertouch, 0xE PitchWheel, 0xF SystemExclusive); when
  bit 7 is clear, it throws \<open>InvalidMidiData\<close>. There is no third outcome, and the
  buffer is left as it was.
\<close>

theorem kind_top_nibble:
  assumes "window_at m v = Some (s, d0, d1)"
  shows "(bit s 7 \<longrightarrow>
            (\<exists>k. kind v m = (Inr k, m) \<and>
                 (drop_bit 4 s, k) \<in> {(0x8, NoteOff), (0x9, NoteOn), (0xA, PolyAftertouch),
                   (0xB, ControlChange), (0xC, ProgramChange), (0xD, ChannelAftertouch),
                   (0xE, PitchWheel), (0xF, SystemExclusive)}))
       \<and> (\<not> bit s 7 \<longrightarrow> kind v m = (Inl (Thrown InvalidMidiData), m))"
proof (cases "bit s 7")
  case True
  then have "drop_bit 4 s \<in> {0x8, 0x9, 0xA, 0xB, 0xC, 0xD, 0xE, 0xF}"
    unfolding top_bit_nibble by (rule top_nibble_range)
  then show ?thesis using True by (auto simp: kind_window [OF assms])
next
  case False
  then have "\<not> 8 \<le> drop_bit 4 s" unfolding top_bit_nibble .
  then have "drop_bit 4 s \<notin> {0x8, 0x9, 0xA, 0xB, 0xC, 0xD, 0xE, 0xF}"
    by (auto simp: word_le_nat_alt)
  then show ?thesis using False by (simp add: kind_window [OF assms])
qed

theorem kind_top_nibble_witness:
  "window_at [0x90, 0x3C, 0x64] \<lparr>view_data = 0\<rparr> = Some (0x90, 0x3C, 0x64)
   \<and> bit (0x90 :: byte) 7
   \<and> kind \<lparr>view_data = 0\<rparr> [0x90, 0x3C, 0x64] = (Inr NoteOn, [0x90, 0x3C, 0x64])
   \<and> window_at [0x00, 0x01, 0x02] \<lparr>view_data = 0\<rparr> = Some (0x00, 0x01, 0x02)
   \<and> \<not> bit (0x00 :: byte) 7
   \<and> kind \<lparr>view_data = 0\<rparr> [0x00, 0x01, 0x02] = (Inl (Thrown InvalidMidiData), [0x00, 0x01, 0x02])"
proof -
  have w1: "window_at [0x90, 0x3C, 0x64] \<lparr>view_data = 0\<rparr> = Some (0x90, 0x3C, 0x64)"
    by (simp add: window_at_def)
  have w2: "window_at [0x00, 0x01, 0x02] \<lparr>view_data = 0\<rparr> = Some (0x00, 0x01, 0x02)"
    by (simp add: window_at_def)
  have b1: "bit (0x90 :: byte) 7" by simp
  have n1: "drop_bit 4 (0x90 :: byte) = 9" by simp
  have k1: "kind \<lparr>view_data = 0\<rparr> [0x90, 0x3C, 0x64] = (Inr NoteOn, [0x90, 0x3C, 0x64])"
    using kind_top_nibble [OF w1] b1 unfolding n1 by auto
  have k2: "kind \<lparr>view_data = 0\<rparr> [0x00, 0x01, 0x02] = (Inl (Thrown InvalidMidiData), [0x00, 0x01, 0x02])"
    using kind_top_nibble [OF w2] by simp
  show ?thesis using w1 w2 b1 k1 k2 by simp
qed

section \<open>The pitch wheel\<close>







lemma pitch_wheel_window:
  assumes "window_at m v = Some (s, d0, d1)"
  shows "pitch_wheel T v m =
    (Inr (word_of_int (push_bit 8 (uint (to_uint16 T d1)) + uint (to_uint16 T d0))), m)"
  by (simp add: pitch_wheel_def andthen_def ret_def data_0_window [OF assms] data_1_window [OF assms])

lemma word_of_int_shift_sum:
  fixes a b :: "16 word"
  shows "(word_of_int (push_bit 8 (uint a) + uint b) :: 16 word) = push_bit 8 a + b"
  by (simp add: push_bit_eq_mult)

text \<open>
  The extension bits of the high byte are shifted out of the 16-bit result, so the
  signedness of \<open>T\<close> shows only in the low byte, and only when its top bit is set.
\<close>

lemma push_bit_scast:
  fixes d1 :: byte
  shows "push_bit 8 (scast d1 :: 16 word) = push_bit 8 (ucast d1)"
proof (rule bit_word_eqI)
  fix n
  assume n: "n < LENGTH(16)"
  show "bit (push_bit 8 (scast d1 :: 16 word)) n = bit (push_bit 8 (ucast d1 :: 16 word)) n"
  proof (cases "8 \<le> n")
    case True
    with n have "min 7 (n - 8) = n - 8" and "n - 8 < 8" by simp_all
    with True n show ?thesis by (simp add: bit_simps)
  next
    case False
    then show ?thesis by (simp add: bit_simps)
  qed
qed

lemma push_bit_to_uint16:
  "push_bit 8 (to_uint16 T d1) = push_bit 8 (ucast d1 :: 16 word)"
  by (cases T) (simp_all add: to_uint16_def push_bit_scast)

lemma scast_low_byte:
  fixes d0 :: byte
  shows "(scast d0 :: 16 word) = (if bit d0 7 then ucast d0 + 0xFF00 else ucast d0)"
proof (cases "bit d0 7")
  case True
  have ff: "(0xFF00 :: 16 word) = push_bit 8 (mask 8)" by (simp add: mask_eq_exp_minus_1)
  have "ucast d0 + push_bit 8 (mask 8) = ucast d0 OR (push_bit 8 (mask 8) :: 16 word)"
    by (rule disjunctive_add) (auto simp: bit_simps dest: bit_imp_le_length)
  also have "\<dots> = scast d0"
  proof (rule bit_word_eqI)
    fix n
    assume n: "n < LENGTH(16)"
    show "bit (ucast d0 OR (push_bit 8 (mask 8) :: 16 word)) n = bit (scast d0 :: 16 word) n"
    proof (cases "8 \<le> n")
      case True
      with n have "min 7 n = 7" and "n - 8 < 8" by simp_all
      with True n \<open>bit d0 7\<close> show ?thesis by (simp add: bit_simps)
    next
      case False
      then have "min 7 n = n" by simp
      with False n show ?thesis by (simp add: bit_simps)
    qed
  qed
  finally show ?thesis using True by (simp add: ff)
next
  case False
  have "(scast d0 :: 16 word) = ucast d0"
  proof (rule bit_word_eqI)
    fix n
    assume n: "n < LENGTH(16)"
    show "bit (scast d0 :: 16 word) n = bit (ucast d0 :: 16 word) n"
    proof (cases "7 \<le> n")
      case True
      then have "min 7 n = 7" by simp
      moreover have "\<not> bit d0 n" using True False by (cases "n = 7") (auto dest: bit_imp_le_length)
      ultimately show ?thesis using n False by (simp add: bit_simps)
    next
      case False
      then have "min 7 n = n" by simp
      with False n show ?thesis by (simp add: bit_simps)
    qed
  qed
  with False show ?thesis by simp
qed



text \<open>
  For a signed element type and a low byte with its top bit set, the sign extension of
  the low byte adds \<open>0xFF00\<close>: the high byte of the result is \<open>d1 - 1\<close>.
\<close>

lemma pitch_wheel_sign_extended:
  assumes "window_at m v = Some (s, d0, d1)" and "bit d0 7"
  shows "pitch_wheel SignedElem v m = (Inr (push_bit 8 (ucast d1) + ucast d0 + 0xFF00), m)"
  unfolding pitch_wheel_window [OF assms(1)] word_of_int_shift_sum push_bit_to_uint16
  using assms(2) by (simp add: to_uint16_def scast_low_byte)




text \<open>
  C7. \<open>pitch_wheel()\<close> contains no \<open>CHRDS_ASSERT\<close> and does not call \<open>kind()\<close>: for every
  window inside the buffer and every element type it returns a value, whatever the
  status byte is and in either build. In particular it returns where \<open>kind()\<close> throws
  \<open>InvalidMidiData\<close>.
\<close>

theorem pitch_wheel_unchecked:
  assumes "window_at m v = Some (s, d0, d1)"
  shows "\<exists>r. pitch_wheel T v m = (Inr r, m)"
  using pitch_wheel_window [OF assms] by simp

theorem pitch_wheel_unchecked_witness:
  "window_at [0x00, 0x01, 0x02] \<lparr>view_data = 0\<rparr> = Some (0x00, 0x01, 0x02)
   \<and> kind \<lparr>view_data = 0\<rparr> [0x00, 0x01, 0x02] = (Inl (Thrown InvalidMidiData), [0x00, 0x01, 0x02])
   \<and> (\<exists>r. pitch_wheel UnsignedElem \<lparr>view_data = 0\<rparr> [0x00, 0x01, 0x02] = (Inr r, [0x00, 0x01, 0x02]))
   \<and> (\<exists>r. pitch_wheel SignedElem \<lparr>view_data = 0\<rparr> [0x00, 0x01, 0x02] = (Inr r, [0x00, 0x01, 0x02]))"
proof -
  have w: "window_at [0x00, 0x01, 0x02] \<lparr>view_data = 0\<rparr> = Some (0x00, 0x01, 0x02)"
    by (simp add: window_at_def)
  have k: "kind \<lparr>view_data = 0\<rparr> [0x00, 0x01, 0x02] = (Inl (Thrown InvalidMidiData), [0x00, 0x01, 0x02])"
    by (simp add: kind_window [OF w])
  show ?thesis
    using w k pitch_wheel_unchecked [OF w, of UnsignedElem] pitch_wheel_unchecked [OF w, of SignedElem]
    by simp
qed

section \<open>Accessors guarded by assertions\<close>

lemma CHRDS_ASSERT_kind:
  assumes "kind v m = (Inr k, m)" and "P k"
  shows "CHRDS_ASSERT ndebug (andthen (kind v) (\<lambda>k. ret (P k))) m = (Inr (), m)"
  using assms by (cases ndebug) (simp_all add: CHRDS_ASSERT_def andthen_def ret_def)

lemma channel_window:
  assumes "window_at m v = Some (s, d0, d1)" and "kind v m = (Inr k, m)" and "k \<noteq> SystemExclusive"
  shows "channel ndebug v m = (Inr (s AND 0x0f), m)"
  using CHRDS_ASSERT_kind [of v m k "\<lambda>k. k \<noteq> SystemExclusive" ndebug] assms(2,3)
  by (simp add: channel_def andthen_def ret_def status_window [OF assms(1)])

lemma note_window:
  assumes "window_at m v = Some (s, d0, d1)" and "kind v m = (Inr k, m)"
    and "k \<in> {NoteOff, NoteOn, PolyAftertouch}"
  shows "note_val ndebug v m = (Inr d0, m)"
  using CHRDS_ASSERT_kind [of v m k "\<lambda>k. k \<in> set [NoteOff, NoteOn, PolyAftertouch]" ndebug] assms(2,3)
  by (simp add: note_val_def andthen_def data_0_window [OF assms(1)])

lemma velocity_window:
  assumes "window_at m v = Some (s, d0, d1)" and "kind v m = (Inr k, m)"
    and "k \<in> {NoteOff, NoteOn}"
  shows "velocity ndebug v m = (Inr d1, m)"
  using CHRDS_ASSERT_kind [of v m k "\<lambda>k. k \<in> set [NoteOff, NoteOn]" ndebug] assms(2,3)
  by (simp add: velocity_def andthen_def data_1_window [OF assms(1)])

lemma cc_controller_window:
  assumes "window_at m v = Some (s, d0, d1)" and "kind v m = (Inr ControlChange, m)"
  shows "cc_controller ndebug v m = (Inr d0, m)"
  using CHRDS_ASSERT_kind [of v m ControlChange "\<lambda>k. k = ControlChange" ndebug] assms(2)
  by (simp add: cc_controller_def andthen_def data_0_window [OF assms(1)])

lemma cc_value_window:
  assumes "window_at m v = Some (s, d0, d1)" and "kind v m = (Inr ControlChange, m)"
  shows "cc_value ndebug v m = (Inr d1, m)"
  using CHRDS_ASSERT_kind [of v m ControlChange "\<lambda>k. k = ControlChange" ndebug] assms(2)
  by (simp add: cc_value_def andthen_def data_1_window [OF assms(1)])

lemma program_number_window:
  assumes "window_at m v = Some (s, d0, d1)" and "kind v m = (Inr ProgramChange, m)"
  shows "program_number ndebug v m = (Inr d0, m)"
  using CHRDS_ASSERT_kind [of v m ProgramChange "\<lambda>k. k = ProgramChange" ndebug] assms(2)
  by (simp add: program_number_def andthen_def data_0_window [OF assms(1)])

text \<open>
  C5. For every window \<open>(s, d0, d1)\<close> inside the buffer that \<open>kind()\<close> classifies as NoteOn
  or NoteOff, \<open>note()\<close> returns \<open>d0\<close>, \<open>velocity()\<close> returns \<open>d1\<close> and \<open>channel()\<close> returns
  \<open>s & 0x0F\<close>, with assertions enabled or not.
\<close>

theorem note_on_off_fields:
  assumes "window_at m v = Some (s, d0, d1)"
    and "kind v m = (Inr NoteOn, m) \<or> kind v m = (Inr NoteOff, m)"
  shows "note_val ndebug v m = (Inr d0, m)
       \<and> velocity ndebug v m = (Inr d1, m)
       \<and> channel ndebug v m = (Inr (s AND 0x0f), m)"
proof -
  from assms(2) obtain k where k: "kind v m = (Inr k, m)" and on_off: "k \<in> {NoteOff, NoteOn}"
    by auto
  from on_off have n: "k \<in> {NoteOff, NoteOn, PolyAftertouch}" and c: "k \<noteq> SystemExclusive"
    by auto
  show ?thesis
    using note_window [OF assms(1) k n, of ndebug] velocity_window [OF assms(1) k on_off, of ndebug]
      channel_window [OF assms(1) k c, of ndebug]
    by simp
qed

theorem note_on_off_fields_witness:
  "window_at [0x90, 0x3C, 0x64] \<lparr>view_data = 0\<rparr> = Some (0x90, 0x3C, 0x64)
   \<and> kind \<lparr>view_data = 0\<rparr> [0x90, 0x3C, 0x64] = (Inr NoteOn, [0x90, 0x3C, 0x64])
   \<and> note_val False \<lparr>view_data = 0\<rparr> [0x90, 0x3C, 0x64] = (Inr 60, [0x90, 0x3C, 0x64])
   \<and> velocity False \<lparr>view_data = 0\<rparr> [0x90, 0x3C, 0x64] = (Inr 100, [0x90, 0x3C, 0x64])
   \<and> channel False \<lparr>view_data = 0\<rparr> [0x90, 0x3C, 0x64] = (Inr 0, [0x90, 0x3C, 0x64])"
proof -
  have w: "window_at [0x90, 0x3C, 0x64] \<lparr>view_data = 0\<rparr> = Some (0x90, 0x3C, 0x64)"
    by (simp add: window_at_def)
  have k: "kind \<lparr>view_data = 0\<rparr> [0x90, 0x3C, 0x64] = (Inr NoteOn, [0x90, 0x3C, 0x64])"
    by (simp add: kind_window [OF w])
  have c: "(0x90 :: byte) AND 0x0f = 0" by simp
  show ?thesis using w k note_on_off_fields [OF w disjI1 [OF k], of False] by (simp add: c)
qed

section \<open>Aftertouch pressure\<close>

lemma pressure_window:
  assumes "window_at m v = Some (s, d0, d1)" and "kind v m = (Inr k, m)"
  shows "pressure ndebug v m =
     (case k of
        PolyAftertouch \<Rightarrow> (Inr d0, m)
      | ChannelAftertouch \<Rightarrow> (Inr d1, m)
      | _ \<Rightarrow> if ndebug then (Inr 0, m) else (Inl AssertionFailed, m))"
  using assms(2)
  by (cases k)
     (simp_all add: pressure_def andthen_def CHRDS_ASSERT_def ret_def fail_def
        data_0_window [OF assms(1)] data_1_window [OF assms(1)])

text \<open>
  C8. For every window \<open>(s, d0, d1)\<close> inside the buffer, \<open>pressure()\<close> returns \<open>d0\<close> (byte 1)
  when \<open>kind()\<close> is PolyAftertouch and \<open>d1\<close> (byte 2) when \<open>kind()\<close> is ChannelAftertouch.
\<close>

theorem pressure_by_kind:
  assumes "window_at m v = Some (s, d0, d1)"
  shows "(kind v m = (Inr PolyAftertouch, m) \<longrightarrow> pressure ndebug v m = (Inr d0, m))
       \<and> (kind v m = (Inr ChannelAftertouch, m) \<longrightarrow> pressure ndebug v m = (Inr d1, m))"
  by (simp add: pressure_window [OF assms])

theorem pressure_by_kind_witness:
  "window_at [0xA3, 0x10, 0x20] \<lparr>view_data = 0\<rparr> = Some (0xA3, 0x10, 0x20)
   \<and> kind \<lparr>view_data = 0\<rparr> [0xA3, 0x10, 0x20] = (Inr PolyAftertouch, [0xA3, 0x10, 0x20])
   \<and> pressure False \<lparr>view_data = 0\<rparr> [0xA3, 0x10, 0x20] = (Inr 0x10, [0xA3, 0x10, 0x20])
   \<and> window_at [0xD3, 0x10, 0x20] \<lparr>view_data = 0\<rparr> = Some (0xD3, 0x10, 0x20)
   \<and> kind \<lparr>view_data = 0\<rparr> [0xD3, 0x10, 0x20] = (Inr ChannelAftertouch, [0xD3, 0x10, 0x20])
   \<and> pressure False \<lparr>view_data = 0\<rparr> [0xD3, 0x10, 0x20] = (Inr 0x20, [0xD3, 0x10, 0x20])"
proof -
  have w1: "window_at [0xA3, 0x10, 0x20] \<lparr>view_data = 0\<rparr> = Some (0xA3, 0x10, 0x20)"
    by (simp add: window_at_def)
  have w2: "window_at [0xD3, 0x10, 0x20] \<lparr>view_data = 0\<rparr> = Some (0xD3, 0x10, 0x20)"
    by (simp add: window_at_def)
  have k1: "kind \<lparr>view_data = 0\<rparr> [0xA3, 0x10, 0x20] = (Inr PolyAftertouch, [0xA3, 0x10, 0x20])"
    by (simp add: kind_window [OF w1])
  have k2: "kind \<lparr>view_data = 0\<rparr> [0xD3, 0x10, 0x20] = (Inr ChannelAftertouch, [0xD3, 0x10, 0x20])"
    by (simp add: kind_window [OF w2])
  show ?thesis
    using w1 w2 k1 k2 pressure_by_kind [OF w1, of False] pressure_by_kind [OF w2, of False]
    by simp
qed

section \<open>Data bytes are returned as they are\<close>

text \<open>
  C10. \<open>note()\<close>, \<open>velocity()\<close>, \<open>cc_controller()\<close>, \<open>cc_value()\<close> and \<open>program_number()\<close>
  return their data byte unchanged whenever the kind of the window is one the accessor
  expects. The bytes \<open>d0\<close> and \<open>d1\<close> range over all 256 values: nothing is masked to seven
  bits and nothing is rejected, so a byte of 128 to 255 comes back as it is.
\<close>

theorem accessors_return_raw_byte:
  assumes "window_at m v = Some (s, d0, d1)" and "kind v m = (Inr k, m)"
  shows "(k \<in> {NoteOff, NoteOn, PolyAftertouch} \<longrightarrow> note_val ndebug v m = (Inr d0, m))
       \<and> (k \<in> {NoteOff, NoteOn} \<longrightarrow> velocity ndebug v m = (Inr d1, m))
       \<and> (k = ControlChange \<longrightarrow> cc_controller ndebug v m = (Inr d0, m))
       \<and> (k = ControlChange \<longrightarrow> cc_value ndebug v m = (Inr d1, m))
       \<and> (k = ProgramChange \<longrightarrow> program_number ndebug v m = (Inr d0, m))"
  using note_window [OF assms, of ndebug] velocity_window [OF assms, of ndebug]
    cc_controller_window [OF assms(1), of ndebug] cc_value_window [OF assms(1), of ndebug]
    program_number_window [OF assms(1), of ndebug] assms(2)
  by blast

theorem accessors_return_raw_byte_witness:
  "window_at [0x90, 0xFF, 0x80] \<lparr>view_data = 0\<rparr> = Some (0x90, 0xFF, 0x80)
   \<and> kind \<lparr>view_data = 0\<rparr> [0x90, 0xFF, 0x80] = (Inr NoteOn, [0x90, 0xFF, 0x80])
   \<and> note_val False \<lparr>view_data = 0\<rparr> [0x90, 0xFF, 0x80] = (Inr 0xFF, [0x90, 0xFF, 0x80])
   \<and> velocity False \<lparr>view_data = 0\<rparr> [0x90, 0xFF, 0x80] = (Inr 0x80, [0x90, 0xFF, 0x80])
   \<and> window_at [0xB0, 0x80, 0xFF] \<lparr>view_data = 0\<rparr> = Some (0xB0, 0x80, 0xFF)
   \<and> kind \<lparr>view_data = 0\<rparr> [0xB0, 0x80, 0xFF] = (Inr ControlChange, [0xB0, 0x80, 0xFF])
   \<and> cc_controller False \<lparr>view_data = 0\<rparr> [0xB0, 0x80, 0xFF] = (Inr 0x80, [0xB0, 0x80, 0xFF])
   \<and> cc_value False \<lparr>view_data = 0\<rparr> [0xB0, 0x80, 0xFF] = (Inr 0xFF, [0xB0, 0x80, 0xFF])
   \<and> window_at [0xC0, 0xC8, 0x00] \<lparr>view_data = 0\<rparr> = Some (0xC0, 0xC8, 0x00)
   \<and> kind \<lparr>view_data = 0\<rparr> [0xC0, 0xC8, 0x00] = (Inr ProgramChange, [0xC0, 0xC8, 0x00])
   \<and> program_number False \<lparr>view_data = 0\<rparr> [0xC0, 0xC8, 0x00] = (Inr 0xC8, [0xC0, 0xC8, 0x00])"
proof -
  have w1: "window_at [0x90, 0xFF, 0x80] \<lparr>view_data = 0\<rparr> = Some (0x90, 0xFF, 0x80)"
    by (simp add: window_at_def)
  have w2: "window_at [0xB0, 0x80, 0xFF] \<lparr>view_data = 0\<rparr> = Some (0xB0, 0x80, 0xFF)"
    by (simp add: window_at_def)
  have w3: "window_at [0xC0, 0xC8, 0x00] \<lparr>view_data = 0\<rparr> = Some (0xC0, 0xC8, 0x00)"
    by (simp add: window_at_def)
  have k1: "kind \<lparr>view_data = 0\<rparr> [0x90, 0xFF, 0x80] = (Inr NoteOn, [0x90, 0xFF, 0x80])"
    by (simp add: kind_window [OF w1])
  have k2: "kind \<lparr>view_data = 0\<rparr> [0xB0, 0x80, 0xFF] = (Inr ControlChange, [0xB0, 0x80, 0xFF])"
    by (simp add: kind_window [OF w2])
  have k3: "kind \<lparr>view_data = 0\<rparr> [0xC0, 0xC8, 0x00] = (Inr ProgramChange, [0xC0, 0xC8, 0x00])"
    by (simp add: kind_window [OF w3])
  show ?thesis
    using w1 w2 w3 k1 k2 k3 accessors_return_raw_byte [OF w1 k1, of False]
      accessors_return_raw_byte [OF w2 k2, of False]
      accessors_return_raw_byte [OF w3 k3, of False]
    by simp
qed

section \<open>Constructing a MessagesView\<close>

lemma MessagesView_ctor_eq:
  "MessagesView_ctor sp m =
     (if span_size sp mod 3 = 0 then (Inr \<lparr>seq_data = sp\<rparr>, m)
      else (Inl (Thrown InvalidMidiDataLength), m))"
  by (simp add: MessagesView_ctor_def throw_def fail_def ret_def)

text \<open>
  C3. The constructor throws \<open>InvalidMidiDataLength\<close> exactly when the length of the span
  is not a multiple of 3, and otherwise returns the view over that span. It throws for
  the lengths 1, 2, 4, 5 and 7 and returns for length 0. The span over a whole buffer has
  the length of the buffer.
\<close>

theorem ctor_throws_iff_not_multiple_of_3:
  "(fst (MessagesView_ctor sp m) = Inl (Thrown InvalidMidiDataLength)) = (span_size sp mod 3 \<noteq> 0)
   \<and> (span_size sp mod 3 = 0 \<longrightarrow> MessagesView_ctor sp m = (Inr \<lparr>seq_data = sp\<rparr>, m))
   \<and> (span_size sp \<in> {1, 2, 4, 5, 7} \<longrightarrow>
        MessagesView_ctor sp m = (Inl (Thrown InvalidMidiDataLength), m))
   \<and> (span_size sp = 0 \<longrightarrow> MessagesView_ctor sp m = (Inr \<lparr>seq_data = sp\<rparr>, m))
   \<and> span_size (span_of b) = length b"
  by (auto simp: MessagesView_ctor_eq span_of_def)

theorem ctor_throws_iff_not_multiple_of_3_witness:
  "MessagesView_ctor (span_of [0x90, 0x3C, 0x64, 0x80]) [0x90, 0x3C, 0x64, 0x80]
     = (Inl (Thrown InvalidMidiDataLength), [0x90, 0x3C, 0x64, 0x80])
   \<and> MessagesView_ctor (span_of [0x90, 0x3C, 0x64]) [0x90, 0x3C, 0x64]
     = (Inr \<lparr>seq_data = \<lparr>span_ptr = 0, span_size = 3\<rparr>\<rparr>, [0x90, 0x3C, 0x64])
   \<and> MessagesView_ctor (span_of []) [] = (Inr \<lparr>seq_data = \<lparr>span_ptr = 0, span_size = 0\<rparr>\<rparr>, [])"
proof -
  have s4: "span_size (span_of [0x90, 0x3C, 0x64, 0x80 :: byte]) \<in> {1, 2, 4, 5, 7}"
    by (simp add: span_of_def)
  have s3: "span_size (span_of [0x90, 0x3C, 0x64 :: byte]) mod 3 = 0"
    by (simp add: span_of_def)
  have s0: "span_size (span_of ([] :: buffer)) = 0"
    by (simp add: span_of_def)
  show ?thesis
    using s4 s3 s0
      ctor_throws_iff_not_multiple_of_3 [of "span_of [0x90, 0x3C, 0x64, 0x80]" "[0x90, 0x3C, 0x64, 0x80]"]
      ctor_throws_iff_not_multiple_of_3 [of "span_of [0x90, 0x3C, 0x64]" "[0x90, 0x3C, 0x64]"]
      ctor_throws_iff_not_multiple_of_3 [of "span_of []" "[]"]
    by (simp add: span_of_def)
qed

section \<open>Positions\<close>

lemma cdiv_3: "cdiv (3 * k) 3 = k"
proof -
  have "\<bar>3 * k\<bar> div 3 = \<bar>k\<bar>" by (simp add: abs_mult)
  moreover have "sgn (3 * k) = sgn k" by (simp add: sgn_mult)
  ultimately show ?thesis by (simp add: cdiv_def mult_sgn_abs)
qed

lemma op_pre_inc_funpow: "(op_pre_inc ^^ i) it = \<lparr>span_it = span_it it + 3 * int i\<rparr>"
  by (induction i) (simp_all add: op_pre_inc_def)

lemma op_index_eq: "op_index it i = \<lparr>view_data = span_it it + 3 * i\<rparr>"
  by (simp add: op_index_def op_deref_def op_plus_def)

lemma window_at_element:
  assumes "length m = 3 * n" and "i < n"
  shows "window_at m \<lparr>view_data = 3 * int i\<rparr> = Some (m ! (3 * i), m ! (3 * i + 1), m ! (3 * i + 2))"
proof -
  have "nat (3 * int i) = 3 * i" "nat (3 * int i + 1) = 3 * i + 1" "nat (3 * int i + 2) = 3 * i + 2"
    by simp_all
  moreover have "3 * int i + 3 \<le> int (length m)" using assms by simp
  ultimately show ?thesis by (simp add: window_at_def)
qed

lemma window_at_past_end:
  assumes "length m = 3 * n" and "n \<le> i"
  shows "window_at m \<lparr>view_data = 3 * int i\<rparr> = None"
  using assms by (simp add: window_at_def)

text \<open>
  C4. Over a buffer of length \<open>3n\<close> the constructor returns a view whose two end positions
  are \<open>n\<close> elements apart. For every \<open>i < n\<close>, indexing the first position with \<open>i\<close>, and
  stepping the first position forward \<open>i\<close> times and dereferencing, both give the
  \<open>MessageView\<close> whose window starts at byte \<open>3i\<close>, which holds the bytes \<open>3i\<close>, \<open>3i+1\<close> and
  \<open>3i+2\<close> of the buffer. From index \<open>n\<close> on there is no window inside the buffer, so the
  elements are exactly those \<open>n\<close>.
\<close>

theorem elements_of_sequence:
  assumes "length m = 3 * n"
  shows "\<exists>sv. MessagesView_ctor (span_of m) m = (Inr sv, m)
           \<and> op_distance (last_position sv) (first_position sv) = int n
           \<and> (\<forall>i<n. op_index (first_position sv) (int i) = \<lparr>view_data = 3 * int i\<rparr>
                     \<and> op_deref ((op_pre_inc ^^ i) (first_position sv)) = \<lparr>view_data = 3 * int i\<rparr>
                     \<and> window_at m \<lparr>view_data = 3 * int i\<rparr>
                         = Some (m ! (3 * i), m ! (3 * i + 1), m ! (3 * i + 2)))
           \<and> (\<forall>i\<ge>n. window_at m (op_index (first_position sv) (int i)) = None)"
proof -
  let ?sv = "\<lparr>seq_data = span_of m\<rparr>"
  have c: "MessagesView_ctor (span_of m) m = (Inr ?sv, m)"
    using assms by (simp add: MessagesView_ctor_eq span_of_def)
  have f: "first_position ?sv = \<lparr>span_it = 0\<rparr>"
    by (simp add: first_position_def span_begin_def span_of_def)
  have l: "last_position ?sv = \<lparr>span_it = 3 * int n\<rparr>"
    using assms by (simp add: last_position_def span_end_def span_of_def)
  have d: "op_distance (last_position ?sv) (first_position ?sv) = int n"
    unfolding f l by (simp add: op_distance_def cdiv_3)
  have e: "\<forall>i<n. op_index (first_position ?sv) (int i) = \<lparr>view_data = 3 * int i\<rparr>
                     \<and> op_deref ((op_pre_inc ^^ i) (first_position ?sv)) = \<lparr>view_data = 3 * int i\<rparr>
                     \<and> window_at m \<lparr>view_data = 3 * int i\<rparr>
                         = Some (m ! (3 * i), m ! (3 * i + 1), m ! (3 * i + 2))"
    unfolding f by (simp add: op_index_eq op_pre_inc_funpow op_deref_def window_at_element [OF assms])
  have p: "\<forall>i\<ge>n. window_at m (op_index (first_position ?sv) (int i)) = None"
    unfolding f by (simp add: op_index_eq window_at_past_end [OF assms])
  from c d e p show ?thesis by blast
qed

theorem elements_of_sequence_witness:
  "length [0x90, 0x3C, 0x64, 0x80, 0x3C, 0x00 :: byte] = 3 * 2
   \<and> (\<exists>sv. MessagesView_ctor (span_of [0x90, 0x3C, 0x64, 0x80, 0x3C, 0x00]) [0x90, 0x3C, 0x64, 0x80, 0x3C, 0x00]
              = (Inr sv, [0x90, 0x3C, 0x64, 0x80, 0x3C, 0x00])
         \<and> op_distance (last_position sv) (first_position sv) = 2
         \<and> op_index (first_position sv) 1 = \<lparr>view_data = 3\<rparr>
         \<and> window_at [0x90, 0x3C, 0x64, 0x80, 0x3C, 0x00] (op_index (first_position sv) 1)
              = Some (0x80, 0x3C, 0x00)
         \<and> window_at [0x90, 0x3C, 0x64, 0x80, 0x3C, 0x00] (op_index (first_position sv) 2) = None)"
proof -
  let ?m = "[0x90, 0x3C, 0x64, 0x80, 0x3C, 0x00 :: byte]"
  have len: "length ?m = 3 * 2" by simp
  from elements_of_sequence [OF len] obtain sv where
    c: "MessagesView_ctor (span_of ?m) ?m = (Inr sv, ?m)"
    and d: "op_distance (last_position sv) (first_position sv) = int 2"
    and e: "\<forall>i<2. op_index (first_position sv) (int i) = \<lparr>view_data = 3 * int i\<rparr>
                     \<and> op_deref ((op_pre_inc ^^ i) (first_position sv)) = \<lparr>view_data = 3 * int i\<rparr>
                     \<and> window_at ?m \<lparr>view_data = 3 * int i\<rparr>
                         = Some (?m ! (3 * i), ?m ! (3 * i + 1), ?m ! (3 * i + 2))"
    and p: "\<forall>i\<ge>2. window_at ?m (op_index (first_position sv) (int i)) = None"
    by blast
  have e1: "op_index (first_position sv) 1 = \<lparr>view_data = 3\<rparr>
      \<and> window_at ?m \<lparr>view_data = 3\<rparr> = Some (0x80, 0x3C, 0x00)"
    using e [THEN spec, of 1] by simp
  have p2: "window_at ?m (op_index (first_position sv) 2) = None"
    using p [THEN spec, of 2] by simp
  show ?thesis using len c d e1 p2 by (intro conjI exI [of _ sv]) simp_all
qed

text \<open>
  C6. Stepping a position forward by one element and then backward by one element gives
  the position back, with the prefix and with the postfix operators. For two positions
  at the element indices \<open>i\<close> and \<open>j\<close> of the same sequence, the iterator difference is
  \<open>i - j\<close>, while the span iterators underneath are \<open>3 * (i - j)\<close> bytes apart. This holds
  for all positions, in particular for those inside the range of a view.
\<close>

theorem step_and_distance:
  "op_pre_dec (op_pre_inc it) = it
   \<and> snd (op_post_dec (snd (op_post_inc it))) = it
   \<and> op_distance (op_plus b i) (op_plus b j) = i - j
   \<and> span_it (op_plus b i) - span_it (op_plus b j) = 3 * (i - j)"
proof -
  have "span_it b + 3 * i - (span_it b + 3 * j) = 3 * (i - j)" by simp
  then have "op_distance (op_plus b i) (op_plus b j) = i - j"
    by (simp only: op_distance_def op_plus_def MessageIterator.simps cdiv_3)
  then show ?thesis
    by (simp add: op_pre_dec_def op_pre_inc_def op_post_dec_def op_post_inc_def op_plus_def)
qed

section \<open>The buffer is only read\<close>

lemma snd_ret: "snd (ret x m) = m"
  by (simp add: ret_def)

lemma snd_fail: "snd (fail f m) = m"
  by (simp add: fail_def)

lemma snd_load: "snd (load a m) = m"
  by (simp add: load_def)

lemma snd_andthen:
  assumes "\<And>m. snd (c m) = m" and "\<And>x m. snd (f x m) = m"
  shows "snd (andthen c f m) = m"
proof (cases "c m")
  case (Pair r m')
  with assms(1) [of m] have "m' = m" by simp
  with Pair assms(2) show ?thesis by (cases r) (simp_all add: andthen_def)
qed

lemma snd_CHRDS_ASSERT:
  assumes "\<And>m. snd (e m) = m"
  shows "snd (CHRDS_ASSERT ndebug e m) = m"
  unfolding CHRDS_ASSERT_def
  by (cases ndebug) (simp_all add: snd_ret snd_fail snd_andthen assms)

lemma snd_status: "snd (status v m) = m"
  by (simp add: status_def snd_load)

lemma snd_data_0: "snd (data_0 v m) = m"
  by (simp add: data_0_def snd_load)

lemma snd_data_1: "snd (data_1 v m) = m"
  by (simp add: data_1_def snd_load)

lemma snd_kind: "snd (kind v m) = m"
  unfolding kind_def
  by (rule snd_andthen) (simp_all add: snd_status Let_def snd_ret throw_def snd_fail)

lemma snd_channel: "snd (channel ndebug v m) = m"
  unfolding channel_def
  by (intro snd_andthen snd_CHRDS_ASSERT snd_kind snd_ret snd_status)

lemma snd_note_val: "snd (note_val ndebug v m) = m"
  unfolding note_val_def Let_def
  by (intro snd_andthen snd_CHRDS_ASSERT snd_kind snd_ret snd_data_0)

lemma snd_velocity: "snd (velocity ndebug v m) = m"
  unfolding velocity_def Let_def
  by (intro snd_andthen snd_CHRDS_ASSERT snd_kind snd_ret snd_data_1)

lemma snd_pressure: "snd (pressure ndebug v m) = m"
  unfolding pressure_def
proof (rule snd_andthen [OF snd_kind])
  fix k m
  show "snd ((case k of PolyAftertouch \<Rightarrow> data_0 v | ChannelAftertouch \<Rightarrow> data_1 v
              | _ \<Rightarrow> andthen (CHRDS_ASSERT ndebug (ret False)) (\<lambda>_. ret 0)) m) = m"
    by (cases k) (simp_all add: snd_data_0 snd_data_1 snd_andthen snd_CHRDS_ASSERT snd_ret)
qed

lemma snd_cc_controller: "snd (cc_controller ndebug v m) = m"
  unfolding cc_controller_def
  by (intro snd_andthen snd_CHRDS_ASSERT snd_kind snd_ret snd_data_0)

lemma snd_cc_value: "snd (cc_value ndebug v m) = m"
  unfolding cc_value_def
  by (intro snd_andthen snd_CHRDS_ASSERT snd_kind snd_ret snd_data_1)

lemma snd_program_number: "snd (program_number ndebug v m) = m"
  unfolding program_number_def
  by (intro snd_andthen snd_CHRDS_ASSERT snd_kind snd_ret snd_data_0)

lemma snd_pitch_wheel: "snd (pitch_wheel T v m) = m"
  unfolding pitch_wheel_def
  by (intro snd_andthen snd_ret snd_data_0 snd_data_1)

lemma snd_MessagesView_ctor: "snd (MessagesView_ctor sp m) = m"
  by (simp add: MessagesView_ctor_eq)

text \<open>
  C9. Every member function that is given the buffer leaves it as it found it, whatever
  the buffer holds, whether the call returns, throws, fails an assertion or reads out of
  range: the byte readers, \<open>kind()\<close>, each field accessor in either build and for
  either signedness of the element type, and the constructor of \<open>MessagesView\<close>. The constructor of \<open>MessageView\<close> and the operators of the
  iterator compute on positions only and are not given the buffer at all.
\<close>

theorem buffer_is_never_written:
  "snd (status v m) = m
   \<and> snd (data_0 v m) = m
   \<and> snd (data_1 v m) = m
   \<and> snd (kind v m) = m
   \<and> snd (channel ndebug v m) = m
   \<and> snd (note_val ndebug v m) = m
   \<and> snd (velocity ndebug v m) = m
   \<and> snd (pressure ndebug v m) = m
   \<and> snd (cc_controller ndebug v m) = m
   \<and> snd (cc_value ndebug v m) = m
   \<and> snd (program_number ndebug v m) = m
   \<and> snd (pitch_wheel T v m) = m
   \<and> snd (MessagesView_ctor sp m) = m"
  by (simp only: snd_status snd_data_0 snd_data_1 snd_kind snd_channel snd_note_val snd_velocity
      snd_pressure snd_cc_controller snd_cc_value snd_program_number snd_pitch_wheel
      snd_MessagesView_ctor simp_thms)

end
